theory Spec2Isabelle
  imports Complex_Main
begin

section \<open>Numbers\<close>

text \<open>
  The source computes on JavaScript numbers. They are modelled as \<^typ>\<open>real\<close>; the one
  non-finite value the modelled code can produce from finite inputs, NaN, is \<open>None\<close> of
  \<^typ>\<open>real option\<close>. Rounding of the binary representation is not modelled: the
  concrete inputs used below are small integers and halves, on which the double
  arithmetic of the source is exact, and the comparisons they decide are far from their
  thresholds.
\<close>

text \<open>\<^verbatim>\<open>Math.trunc\<close>: the integer part, towards zero.\<close>

definition trunc :: "real \<Rightarrow> int" where
  "trunc x = (if 0 \<le> x then \<lfloor>x\<rfloor> else - \<lfloor>- x\<rfloor>)"

text \<open>
  The operator \<^verbatim>\<open>a % b\<close> on numbers: the remainder of the truncated division, so
  its sign is the dividend's. A zero divisor gives NaN.
\<close>

definition jsRem :: "real \<Rightarrow> real \<Rightarrow> real option" where
  "jsRem a b = (if b = 0 then None else Some (a - b * of_int (trunc (a / b))))"

text \<open>\<^verbatim>\<open>Math.round\<close>: the nearest integer, a tie going up.\<close>

definition mathRound :: "real \<Rightarrow> int" where
  "mathRound x = \<lfloor>x + 1 / 2\<rfloor>"

text \<open>
  A multiple of \<open>2\<^sup>-\<^sup>k\<close> whose multiplier has fewer than 53 bits. For the small \<open>k\<close>
  used below such a number is a double, and an operation on doubles whose exact result is
  such a number returns that result: there the source and the model compute the same.
\<close>

definition binary53 :: "nat \<Rightarrow> real \<Rightarrow> bool" where
  "binary53 k y = (of_int \<lfloor>y * 2 ^ k\<rfloor> = y * 2 ^ k \<and> \<bar>y * 2 ^ k\<bar> < 2 ^ 53)"

section \<open>The rotation gesture\<close>

text \<open>
  \<^verbatim>\<open>PartPosition\<close> of the source, a union tagged \<^verbatim>\<open>static\<close>, \<^verbatim>\<open>will-move\<close>
  and \<^verbatim>\<open>moving\<close>. The fields keep the source's order. A \<^verbatim>\<open>lastStatic\<close> is a
  static position, held as its \<^verbatim>\<open>position\<close>; a \<^verbatim>\<open>clock\<close> is held as the time
  (in milliseconds) at which it was started; the field \<^verbatim>\<open>x\<close> is \<open>pointerX\<close>. The type of \<^verbatim>\<open>position\<close> in the source
  is \<^verbatim>\<open>-1 | 0 | 1\<close>; here it is an \<^typ>\<open>int\<close>, and \<open>wellTyped\<close> says that it
  is one of the three.
\<close>

datatype PartPosition =
    Static (position: int)
  | WillMove (startRot: real) (startPos: "real \<times> real") (clock: real) (lastStatic: int)
  | Moving (startRot: real) (startPos: "real \<times> real") (lastStatic: int) (clock: real) (pointerX: real)

definition wellTyped :: "PartPosition \<Rightarrow> bool" where
  "wellTyped val =
     (case val of
        Static p \<Rightarrow> p = -1 \<or> p = 0 \<or> p = 1
      | WillMove sr sp c ls \<Rightarrow> ls = -1 \<or> ls = 0 \<or> ls = 1
      | Moving sr sp ls c mx \<Rightarrow> ls = -1 \<or> ls = 0 \<or> ls = 1)"

text \<open>\<^verbatim>\<open>bound\<close>: \<^verbatim>\<open>((v - lo) % (hi - lo)) + lo\<close>.\<close>

fun bound :: "real \<Rightarrow> real \<times> real \<Rightarrow> real option" where
  "bound v (lo, hi) = map_option (\<lambda>m. m + lo) (jsRem (v - lo) (hi - lo))"

text \<open>
  The listener of \<^verbatim>\<open>partPositioning\<close>. Its result is the call it makes to
  \<^verbatim>\<open>rotation.startAnimationTo\<close>: the target and whether \<^verbatim>\<open>immediate\<close> is passed;
  \<open>None\<close> when it makes no call. \<open>canvasWidth\<close> is \<^verbatim>\<open>renderer.canvasWidth\<close>.
  The value \<^verbatim>\<open>v\<close> of the \<^verbatim>\<open>moving\<close> branch is \<open>dragValue\<close>; with a canvas of
  width 0 the source divides by zero and \<^verbatim>\<open>v\<close> is infinite or NaN, which
  \<^verbatim>\<open>bound\<close> turns into NaN.
\<close>

definition dragValue :: "real \<Rightarrow> PartPosition \<Rightarrow> real" where
  "dragValue canvasWidth val =
     (let dwdx = 2 / canvasWidth
      in (pointerX val - fst (startPos val)) * dwdx - startRot val)"

datatype animationCall = StartAnimationTo (target: "real option") (immediate: bool)

definition positioningListener :: "real \<Rightarrow> PartPosition \<Rightarrow> animationCall option" where
  "positioningListener canvasWidth val =
     (case val of
        Static p \<Rightarrow> Some (StartAnimationTo (Some (of_int p)) False)
      | Moving sr sp ls c mx \<Rightarrow>
          Some (StartAnimationTo
                  (if canvasWidth = 0 then None else bound (dragValue canvasWidth val) (-1, 1))
                  True)
      | WillMove sr sp c ls \<Rightarrow> None)"

text \<open>
  The state of the gesture: the value of \<^verbatim>\<open>partPositioning\<close> and whether the
  \<^verbatim>\<open>trackMouse\<close> and \<^verbatim>\<open>forgetMouse\<close> listeners are attached to the window.
  (Adding a listener that is already attached does nothing, so a flag is enough.)
\<close>

record gesture =
  partPositioning :: PartPosition
  trackAttached :: bool
  forgetAttached :: bool

text \<open>
  \<^verbatim>\<open>readyMouse\<close>, the handler of \<^verbatim>\<open>mousedown\<close> and \<^verbatim>\<open>touchstart\<close>. Its inputs:
  the coordinates \<^verbatim>\<open>eventCoords(e)\<close>, the colour \<open>(r, g, b, a)\<close> that
  \<^verbatim>\<open>renderer.getCanvasPixelColor\<close> returns there, \<^verbatim>\<open>rotation.current\<close>, and the time
  at which the new clock starts.
\<close>

definition readyMouse ::
  "real \<times> real \<Rightarrow> real \<times> real \<times> real \<times> real \<Rightarrow> real \<Rightarrow> real \<Rightarrow> gesture \<Rightarrow> gesture" where
  "readyMouse xy rgba rotationCurrent now s =
     (case rgba of (r, g, b, a) \<Rightarrow>
        if r = 0 \<and> g = 0 \<and> b = 0 \<and> a = 0 then s
        else
          s\<lparr>partPositioning :=
               (case partPositioning s of
                  Static p \<Rightarrow> WillMove rotationCurrent xy now p
                | val \<Rightarrow> val),
            trackAttached := True,
            forgetAttached := True\<rparr>)"

text \<open>\<^verbatim>\<open>trackMouse\<close>, the handler of \<^verbatim>\<open>mousemove\<close> and \<^verbatim>\<open>touchmove\<close>.\<close>

definition trackMouse :: "real \<Rightarrow> gesture \<Rightarrow> gesture" where
  "trackMouse ex s =
     s\<lparr>partPositioning :=
         (case partPositioning s of
            WillMove sr sp c ls \<Rightarrow> Moving sr sp ls c ex
          | Moving sr sp ls c mx \<Rightarrow> Moving sr sp ls c ex
          | Static p \<Rightarrow> Static p)\<rparr>"

text \<open>
  \<^verbatim>\<open>toggle\<close>: the lookup of \<^verbatim>\<open>p.position\<close> in an object with the keys -1, 0 and 1.
  Any other key gives \<^verbatim>\<open>undefined\<close>, here \<open>None\<close>.
\<close>

definition toggle :: "int \<Rightarrow> int option" where
  "toggle p = (if p = -1 then Some 0 else if p = 0 then Some 1 else if p = 1 then Some 0 else None)"

text \<open>\<^verbatim>\<open>clock.getElapsedTime()\<close> at the time \<open>now\<close>, in seconds.\<close>

definition getElapsedTime :: "real \<Rightarrow> real \<Rightarrow> real" where
  "getElapsedTime clockStart now = (now - clockStart) / 1000"

text \<open>
  The function that \<^verbatim>\<open>forgetMouse\<close> passes to \<^verbatim>\<open>partPositioning.update\<close>; \<open>None\<close>
  is \<^verbatim>\<open>undefined\<close>. A NaN from \<^verbatim>\<open>bound\<close> fails both comparisons, as in the source.
\<close>

definition forgetUpdate :: "real \<Rightarrow> real \<Rightarrow> PartPosition \<Rightarrow> PartPosition option" where
  "forgetUpdate rotationCurrent now was =
     (case was of
        WillMove sr sp c ls \<Rightarrow> map_option Static (toggle ls)
      | Static p \<Rightarrow> map_option Static (toggle p)
      | Moving sr sp ls c mx \<Rightarrow>
          (let elapsed = getElapsedTime c now;
               delta = \<bar>mx - fst sp\<bar>
           in if elapsed < 0.3 \<and> delta < 15 then map_option Static (toggle ls)
              else
                (case bound rotationCurrent (-1, 1) of
                   None \<Rightarrow> Some (Static 0)
                 | Some b \<Rightarrow>
                     (let rounded = mathRound b
                      in if rounded \<le> -1 then Some (Static (-1))
                         else if 1 \<le> rounded then Some (Static 1)
                         else Some (Static 0)))))"

text \<open>
  \<^verbatim>\<open>forgetMouse\<close>, the handler of \<^verbatim>\<open>mouseup\<close> and \<^verbatim>\<open>touchend\<close>: it detaches both
  listeners and updates \<^verbatim>\<open>partPositioning\<close>.
\<close>

definition forgetMouse :: "real \<Rightarrow> real \<Rightarrow> gesture \<Rightarrow> gesture option" where
  "forgetMouse rotationCurrent now s =
     map_option (\<lambda>val. s\<lparr>partPositioning := val, trackAttached := False, forgetAttached := False\<rparr>)
       (forgetUpdate rotationCurrent now (partPositioning s))"

text \<open>The gesture before any event, and a run of pointer moves.\<close>

definition initialGesture :: gesture where
  "initialGesture = \<lparr>partPositioning = Static 0, trackAttached = False, forgetAttached = False\<rparr>"

definition trackMoves :: "real list \<Rightarrow> gesture \<Rightarrow> gesture" where
  "trackMoves xs s = foldl (\<lambda>s' ex. trackMouse ex s') s xs"

section \<open>The geometry of the cylinder\<close>

text \<open>
  The kernel (\<^verbatim>\<open>manifold-3d\<close>) is outside the repository. A value of the types below
  is the term of kernel calls that built it: \<^verbatim>\<open>new CrossSection(vertices)\<close>,
  \<^verbatim>\<open>Manifold.cylinder(height, radius)\<close>, \<^verbatim>\<open>extrude\<close>, \<^verbatim>\<open>translate\<close>,
  \<^verbatim>\<open>rotate\<close> and \<^verbatim>\<open>subtract\<close>.
\<close>

type_synonym Vec2 = "real \<times> real"

datatype CrossSection = CrossSection (vertices: "Vec2 list")

datatype Manifold =
    Cylinder real real
  | Extrude CrossSection real
  | Translate Manifold "real \<times> real \<times> real"
  | Rotate Manifold "real \<times> real \<times> real"
  | Subtract Manifold Manifold

definition N_SEGMENTS :: nat where
  "N_SEGMENTS = 64"

definition circle :: "real \<Rightarrow> CrossSection" where
  "circle radius =
     CrossSection
       (map (\<lambda>i. let angle = (real i * 2 * pi) / real N_SEGMENTS
                 in (radius * cos angle, radius * sin angle))
            [0..<N_SEGMENTS])"

text \<open>
  The patterns of the side. \<^verbatim>\<open>Math.random()\<close> is the parameter \<open>rnd\<close>: \<open>rnd k\<close> is
  the result of the call number \<open>k\<close> made while the pattern is built.
\<close>

definition createStripPattern :: "real \<Rightarrow> real \<Rightarrow> real \<Rightarrow> nat \<Rightarrow> real \<Rightarrow> Manifold" where
  "createStripPattern outerRadius innerRadius height stripCount stripWidth =
     foldl
       (\<lambda>result i.
          let angle = (real i * 2 * pi) / real stripCount;
              stripRadius = (outerRadius + innerRadius) / 2;
              stripBox =
                Rotate (Translate (Cylinder (height * 1.1) (stripWidth / 2)) (stripRadius, 0, 0))
                  (0, 0, (angle * 180) / pi)
          in Subtract result stripBox)
       (Cylinder height outerRadius)
       [0..<stripCount]"

definition createVoronoiPattern :: "(nat \<Rightarrow> real) \<Rightarrow> real \<Rightarrow> real \<Rightarrow> real \<Rightarrow> nat \<Rightarrow> Manifold" where
  "createVoronoiPattern rnd outerRadius innerRadius height cellCount =
     (let seedPoints =
            map (\<lambda>i. let angle = rnd (2 * i) * 2 * pi;
                          radius = innerRadius + rnd (2 * i + 1) * (outerRadius - innerRadius)
                      in (radius * cos angle, radius * sin angle))
                [0..<cellCount]
      in foldl
           (\<lambda>result (j, point).
              let holeRadius = 0.8 + rnd (2 * cellCount + j) * 1.2;
                  hole = Translate (Cylinder (height * 1.1) holeRadius) (fst point, snd point, 0)
              in Subtract result hole)
           (Cylinder height outerRadius)
           (zip [0..<cellCount] seedPoints))"

definition createLowPolyPattern :: "(nat \<Rightarrow> real) \<Rightarrow> real \<Rightarrow> real \<Rightarrow> nat \<Rightarrow> Manifold" where
  "createLowPolyPattern rnd outerRadius height facets =
     Extrude
       (CrossSection
          (map (\<lambda>i. let angle = (real i * 2 * pi) / real facets;
                        radiusVariation = 0.9 + rnd i * 0.2;
                        radius = outerRadius * radiusVariation
                    in (radius * cos angle, radius * sin angle))
               [0..<facets]))
       height"

datatype SidePattern = normal | strip | voronoi | lowpoly

text \<open>
  \<^verbatim>\<open>hollowCylinder\<close> of \<^verbatim>\<open>src/model/manifold.ts\<close>. The patterns are built with their
  default counts and widths, as the source calls them. The function has no branch that
  throws or rejects.
\<close>

definition hollowCylinder ::
  "(nat \<Rightarrow> real) \<Rightarrow> real \<Rightarrow> real \<Rightarrow> real \<Rightarrow> bool \<Rightarrow> SidePattern \<Rightarrow> Manifold" where
  "hollowCylinder rnd height outerRadius wallThickness closedBottom sidePattern =
     (let innerRadius = max 0 (outerRadius - wallThickness);
          outer =
            (case sidePattern of
               strip \<Rightarrow> createStripPattern outerRadius innerRadius height 8 0.3
             | voronoi \<Rightarrow> createVoronoiPattern rnd outerRadius innerRadius height 20
             | lowpoly \<Rightarrow> createLowPolyPattern rnd outerRadius height 12
             | normal \<Rightarrow> Extrude (circle outerRadius) height);
          innerHeight = (if closedBottom then height - wallThickness else height);
          innerStartZ = (if closedBottom then wallThickness else 0);
          inner = Translate (Extrude (circle innerRadius) innerHeight) (0, 0, innerStartZ)
      in Subtract outer inner)"

text \<open>
  The earlier \<^verbatim>\<open>hollowCylinder\<close>, of three parameters, that the repository also holds.
\<close>

definition hollowCylinder3 :: "real \<Rightarrow> real \<Rightarrow> real \<Rightarrow> Manifold" where
  "hollowCylinder3 height outerRadius wallThickness =
     (let innerRadius = max 0 (outerRadius - wallThickness);
          outer = Extrude (circle outerRadius) height;
          inner = Extrude (circle innerRadius) height
      in Subtract outer inner)"

text \<open>The second operand of the final \<^verbatim>\<open>subtract\<close>: the cavity.\<close>

fun cavity :: "Manifold \<Rightarrow> Manifold option" where
  "cavity (Subtract outer inner) = Some inner"
| "cavity _ = None"

text \<open>The cross-section that a cavity extrudes.\<close>

fun section_of :: "Manifold \<Rightarrow> CrossSection option" where
  "section_of (Extrude cs h) = Some cs"
| "section_of (Translate m v) = section_of m"
| "section_of _ = None"

section \<open>The name of the file to download\<close>

text \<open>The decimal digits of a natural number.\<close>

definition digit :: "nat \<Rightarrow> char" where
  "digit d = ''0123456789'' ! d"

fun decimal :: "nat \<Rightarrow> string" where
  "decimal n =
     (if n < 10 then [digit n]
      else decimal (n div 10) @ [digit (n mod 10)])"

declare decimal.simps [simp del]

text \<open>
  \<^verbatim>\<open>x.toFixed(0)\<close>: a minus sign when \<open>x < 0\<close>, then the digits of the integer nearest
  to \<open>\<bar>x\<bar>\<close>, the larger one on a tie. From \<open>10\<^sup>2\<^sup>1\<close> on, the result is that of
  \<^verbatim>\<open>Number.prototype.toString\<close>, the parameter \<open>toString\<close>.
\<close>

definition toFixed0 :: "(real \<Rightarrow> string) \<Rightarrow> real \<Rightarrow> string" where
  "toFixed0 toString x =
     (let s = (if x < 0 then ''-'' else []);
          a = \<bar>x\<bar>
      in s @ (if 10 ^ 21 \<le> a then toString a else decimal (nat \<lfloor>a + 1 / 2\<rfloor>)))"

text \<open>
  The \<^verbatim>\<open>filename\<close> that the listener of the four target dimensions computes.
\<close>

definition filename :: "(real \<Rightarrow> string) \<Rightarrow> real \<Rightarrow> real \<Rightarrow> real \<Rightarrow> bool \<Rightarrow> string" where
  "filename toString h r w closedBottom =
     (let bottomType = (if closedBottom then ''closed'' else ''open'')
      in ''cylinder-'' @ toFixed0 toString (r * 2) @ ''x'' @ toFixed0 toString h
           @ ''-wall'' @ toFixed0 toString w @ ''-'' @ bottomType @ ''.3mf'')"

text \<open>
  The pattern of the specification: the diameter, the height and the wall thickness, each
  rounded to an integer, and the kind of bottom.
\<close>

definition filenamePattern :: "int \<Rightarrow> int \<Rightarrow> int \<Rightarrow> bool \<Rightarrow> string" where
  "filenamePattern d h w closedBottom =
     ''cylinder-'' @ decimal (nat d) @ ''x'' @ decimal (nat h) @ ''-wall'' @ decimal (nat w)
       @ ''-'' @ (if closedBottom then ''closed'' else ''open'') @ ''.3mf''"

section \<open>The frame loop and the reloading of the model\<close>

text \<open>
  The arguments of a call of \<^verbatim>\<open>reloadModel\<close>: height, outer radius, wall thickness
  and whether the bottom is closed.
\<close>

type_synonym dimensions = "real \<times> real \<times> real \<times> bool"

text \<open>
  The geometry of the mesh: the \<^verbatim>\<open>THREE.CylinderGeometry\<close> it is created with, or
  \<^verbatim>\<open>mesh2geometry(model)\<close> of a model that the kernel returned.
\<close>

datatype Geometry =
    CylinderGeometry real real real nat
  | Mesh2Geometry Manifold

text \<open>
  What one call of \<^verbatim>\<open>loop\<close> reads from outside the modelled state: its argument
  \<^verbatim>\<open>nowMillis\<close>; the result of \<^verbatim>\<open>tmfLoader.take()\<close> (a blob, by its number, and a
  file name); the result of \<^verbatim>\<open>rotation.update()\<close> and \<^verbatim>\<open>rotation.current\<close>; for
  each animated dimension the result of its \<^verbatim>\<open>update()\<close> and its \<^verbatim>\<open>current\<close>;
  \<^verbatim>\<open>modelDimensions.closedBottom.latest\<close>; and the result of
  \<^verbatim>\<open>renderer.resizeCanvas()\<close>. (\<^verbatim>\<open>TMFLoader\<close>, \<^verbatim>\<open>Animate\<close> and \<^verbatim>\<open>Renderer\<close>
  are not among the sources.)
\<close>

record frameInput =
  nowMillis :: real
  newTmf :: "(nat \<times> string) option"
  rotationUpdated :: bool
  rotationCurrent :: real
  heightUpdated :: bool
  outerRadiusUpdated :: bool
  wallThicknessUpdated :: bool
  heightCurrent :: real
  outerRadiusCurrent :: real
  wallThicknessCurrent :: real
  closedBottomLatest :: bool
  canvasResized :: bool

text \<open>
  The state that \<^verbatim>\<open>loop\<close> and the callbacks of \<^verbatim>\<open>reloadModel\<close> change: the link,
  the mesh, the three module variables \<^verbatim>\<open>reloadModelNeeded\<close>, \<^verbatim>\<open>modelLoadStarted\<close>
  and \<^verbatim>\<open>centerCameraNeeded\<close>, and the number of calls of \<^verbatim>\<open>centerCamera\<close>.
  \<open>loopRequested\<close> says that a call of \<^verbatim>\<open>loop\<close> is due: the first call, which the
  module makes itself, or a callback registered with \<^verbatim>\<open>requestAnimationFrame\<close> that
  has not run yet. Without it no frame comes.
  \<open>kernelCalls\<close> lists the arguments of every call of \<^verbatim>\<open>reloadModel\<close> (each makes one
  call of \<^verbatim>\<open>hollowCylinder\<close>) made so far, \<open>unresolved\<close> those whose promise is not
  settled yet.
\<close>

record scheduler =
  loopRequested :: bool
  linkHref :: "nat option"
  linkDownload :: "string option"
  meshRotationZ :: real
  meshGeometry :: Geometry
  reloadModelNeeded :: bool
  modelLoadStarted :: "real option"
  centerCameraNeeded :: bool
  cameraCenterings :: nat
  kernelCalls :: "dimensions list"
  unresolved :: "dimensions list"

definition START_HEIGHT :: real where "START_HEIGHT = 50"
definition START_OUTER_RADIUS :: real where "START_OUTER_RADIUS = 25"
definition START_WALL_THICKNESS :: real where "START_WALL_THICKNESS = 3"
definition START_CLOSED_BOTTOM :: bool where "START_CLOSED_BOTTOM = True"
definition MESH_ROTATION_DELTA :: real where "MESH_ROTATION_DELTA = 0.1"

text \<open>The state when \<^verbatim>\<open>loop\<close> is first called.\<close>

definition initialScheduler :: scheduler where
  "initialScheduler =
     \<lparr>loopRequested = True,
      linkHref = None, linkDownload = None,
      meshRotationZ = MESH_ROTATION_DELTA,
      meshGeometry = CylinderGeometry START_OUTER_RADIUS START_OUTER_RADIUS START_HEIGHT 32,
      reloadModelNeeded = True,
      modelLoadStarted = None,
      centerCameraNeeded = True,
      cameraCenterings = 0,
      kernelCalls = [],
      unresolved = []\<rparr>"

text \<open>
  \<^verbatim>\<open>dimensionsUpdated\<close>: the \<^verbatim>\<open>reduce\<close> over the three animations, which updates
  every one of them.
\<close>

definition dimensionsUpdated :: "frameInput \<Rightarrow> bool" where
  "dimensionsUpdated inp =
     foldl (\<lambda>acc updated. updated \<or> acc) False
       [heightUpdated inp, outerRadiusUpdated inp, wallThicknessUpdated inp]"

text \<open>The arguments with which a frame calls \<^verbatim>\<open>reloadModel\<close>.\<close>

definition reloadArguments :: "frameInput \<Rightarrow> dimensions" where
  "reloadArguments inp =
     (heightCurrent inp, outerRadiusCurrent inp, wallThicknessCurrent inp, closedBottomLatest inp)"

text \<open>
  \<^verbatim>\<open>reloadModelNow\<close>: the model needs reloading, and no model is loading or the load
  started more than 100 ms ago.
\<close>

definition reloadModelNow :: "real \<Rightarrow> scheduler \<Rightarrow> bool" where
  "reloadModelNow now s =
     (reloadModelNeeded s \<and>
      (case modelLoadStarted s of None \<Rightarrow> True | Some started \<Rightarrow> now - started > 100))"

text \<open>
  The same condition on the state before the frame: the flag \<^verbatim>\<open>reloadModelNeeded\<close>
  is set when the frame comes or is set by the frame.
\<close>

definition startsReload :: "frameInput \<Rightarrow> scheduler \<Rightarrow> bool" where
  "startsReload inp s =
     ((reloadModelNeeded s \<or> dimensionsUpdated inp) \<and>
      (case modelLoadStarted s of None \<Rightarrow> True | Some started \<Rightarrow> nowMillis inp - started > 100))"

text \<open>
  One call of \<^verbatim>\<open>loop\<close>, up to the point where the call of \<^verbatim>\<open>reloadModel\<close> returns
  its pending promise. The call uses up the request that led to it, and its first
  statement, \<^verbatim>\<open>requestAnimationFrame(loop)\<close>, makes the next one. Rendering is not part
  of the state.
\<close>

definition loop :: "frameInput \<Rightarrow> scheduler \<Rightarrow> scheduler" where
  "loop inp s =
     (let s0 = s\<lparr>loopRequested := True\<rparr>;
          s1 = (case newTmf inp of
                  None \<Rightarrow> s0
                | Some (blob, name) \<Rightarrow> s0\<lparr>linkHref := Some blob, linkDownload := Some name\<rparr>);
          s2 = (if rotationUpdated inp
                then s1\<lparr>meshRotationZ := rotationCurrent inp * pi + MESH_ROTATION_DELTA\<rparr>
                else s1);
          s3 = (if dimensionsUpdated inp then s2\<lparr>reloadModelNeeded := True\<rparr> else s2);
          s4 = (if reloadModelNow (nowMillis inp) s3
                then s3\<lparr>modelLoadStarted := Some (nowMillis inp),
                        reloadModelNeeded := False,
                        kernelCalls := kernelCalls s3 @ [reloadArguments inp],
                        unresolved := unresolved s3 @ [reloadArguments inp]\<rparr>
                else s3);
          s5 = (if canvasResized inp then s4\<lparr>centerCameraNeeded := True\<rparr> else s4)
      in if centerCameraNeeded s5
         then s5\<lparr>cameraCenterings := Suc (cameraCenterings s5), centerCameraNeeded := False\<rparr>
         else s5)"

text \<open>A list without its element number \<open>k\<close>.\<close>

definition without :: "nat \<Rightarrow> 'a list \<Rightarrow> 'a list" where
  "without k xs = take k xs @ drop (Suc k) xs"

text \<open>
  The kernel settles the unresolved call number \<open>k\<close>. When it resolves, the rest of
  \<^verbatim>\<open>reloadModel\<close> sets the geometry of the mesh and the \<^verbatim>\<open>then\<close> callback of
  \<^verbatim>\<open>loop\<close> runs. When it rejects, \<^verbatim>\<open>reloadModel\<close> rejects at its \<^verbatim>\<open>await\<close> and
  the \<^verbatim>\<open>then\<close> callback, which has no handler for a rejection, does not run.
  \<^verbatim>\<open>reloadModel\<close> passes no side pattern, so the pattern is \<open>normal\<close> and makes no
  call of \<^verbatim>\<open>Math.random\<close>.
\<close>

definition reloadModel :: "dimensions \<Rightarrow> Geometry" where
  "reloadModel d =
     (case d of (height, outerRadius, wallThickness, closedBottom) \<Rightarrow>
        Mesh2Geometry
          (hollowCylinder (\<lambda>k. 0) height outerRadius wallThickness closedBottom normal))"

definition resolve :: "nat \<Rightarrow> scheduler \<Rightarrow> scheduler" where
  "resolve k s =
     (if k < length (unresolved s)
      then s\<lparr>meshGeometry := reloadModel (unresolved s ! k),
             unresolved := without k (unresolved s),
             modelLoadStarted := None,
             centerCameraNeeded := True\<rparr>
      else s)"

definition reject :: "nat \<Rightarrow> scheduler \<Rightarrow> scheduler" where
  "reject k s =
     (if k < length (unresolved s) then s\<lparr>unresolved := without k (unresolved s)\<rparr> else s)"

text \<open>
  The steps of the system: a frame, when a call of \<^verbatim>\<open>loop\<close> is due, or the kernel
  settling a call. A rejected promise has no handler: it is reported by the browser and
  throws nothing into \<^verbatim>\<open>loop\<close>.
\<close>

inductive step :: "scheduler \<Rightarrow> scheduler \<Rightarrow> bool" where
  frame: "loopRequested s \<Longrightarrow> step s (loop inp s)"
| resolved: "k < length (unresolved s) \<Longrightarrow> step s (resolve k s)"
| rejected: "k < length (unresolved s) \<Longrightarrow> step s (reject k s)"

inductive reachable :: "scheduler \<Rightarrow> bool" where
  initial: "reachable initialScheduler"
| after: "reachable s \<Longrightarrow> step s s' \<Longrightarrow> reachable s'"

text \<open>
  A frame is overdue when a call is unresolved and the frame comes more than 100 ms
  after \<^verbatim>\<open>modelLoadStarted\<close>. The prompt steps are the steps without overdue frames:
  the runs in which every call settles before such a frame.
\<close>

definition overdue :: "frameInput \<Rightarrow> scheduler \<Rightarrow> bool" where
  "overdue inp s =
     (unresolved s \<noteq> [] \<and>
      (case modelLoadStarted s of None \<Rightarrow> False | Some started \<Rightarrow> nowMillis inp - started > 100))"

inductive promptStep :: "scheduler \<Rightarrow> scheduler \<Rightarrow> bool" where
  promptFrame: "loopRequested s \<Longrightarrow> \<not> overdue inp s \<Longrightarrow> promptStep s (loop inp s)"
| promptResolved: "k < length (unresolved s) \<Longrightarrow> promptStep s (resolve k s)"
| promptRejected: "k < length (unresolved s) \<Longrightarrow> promptStep s (reject k s)"

inductive promptlyReachable :: "scheduler \<Rightarrow> bool" where
  promptInitial: "promptlyReachable initialScheduler"
| promptNext: "promptlyReachable s \<Longrightarrow> promptStep s s' \<Longrightarrow> promptlyReachable s'"

text \<open>A run of frames, and a frame at a given time with or without a change of height.\<close>

definition frames :: "frameInput list \<Rightarrow> scheduler \<Rightarrow> scheduler" where
  "frames inps s = foldl (\<lambda>s' inp. loop inp s') s inps"

definition frameAt :: "real \<Rightarrow> bool \<Rightarrow> real \<Rightarrow> frameInput" where
  "frameAt now updated h =
     \<lparr>nowMillis = now, newTmf = None, rotationUpdated = False, rotationCurrent = 0,
      heightUpdated = updated, outerRadiusUpdated = False, wallThicknessUpdated = False,
      heightCurrent = h, outerRadiusCurrent = START_OUTER_RADIUS,
      wallThicknessCurrent = START_WALL_THICKNESS,
      closedBottomLatest = START_CLOSED_BOTTOM, canvasResized = False\<rparr>"

section \<open>Remainders and bounds\<close>

lemma trunc_minus: "trunc (- y) = - trunc y"
  by (simp add: trunc_def)

lemma trunc_frac:
  assumes a: "0 \<le> a" and b: "0 < b"
  shows "0 \<le> a - b * of_int (trunc (a / b)) \<and> a - b * of_int (trunc (a / b)) < (b::real)"
proof -
  have q: "0 \<le> a / b" using a b by simp
  have t: "trunc (a / b) = \<lfloor>a / b\<rfloor>" using q by (simp add: trunc_def)
  have l: "of_int \<lfloor>a / b\<rfloor> * b \<le> a" using b by (rule floor_divide_lower)
  have u: "a < (of_int \<lfloor>a / b\<rfloor> + 1) * b" using b by (rule floor_divide_upper)
  from l u show ?thesis unfolding t by (simp add: algebra_simps)
qed

lemma trunc_frac_neg:
  assumes a: "a \<le> 0" and b: "0 < b"
  shows "- b < a - b * of_int (trunc (a / b)) \<and> a - b * of_int (trunc (a / b)) \<le> (0::real)"
proof -
  have "0 \<le> (- a) - b * of_int (trunc ((- a) / b)) \<and> (- a) - b * of_int (trunc ((- a) / b)) < b"
    using a b by (intro trunc_frac) simp_all
  then show ?thesis by (simp add: trunc_minus)
qed

text \<open>
  From -1 upwards \<^verbatim>\<open>bound\<close> wraps into the range; below -1 its result stays below
  -1, because the remainder has the sign of the dividend.
\<close>

lemma bound_upper: "-1 \<le> v \<Longrightarrow> \<exists>b. bound v (-1, 1) = Some b \<and> -1 \<le> b \<and> b < 1"
  using trunc_frac [of "v + 1" 2] by (simp add: jsRem_def)

lemma bound_lower: "v \<le> -1 \<Longrightarrow> \<exists>b. bound v (-1, 1) = Some b \<and> -3 < b \<and> b \<le> -1"
  using trunc_frac_neg [of "v + 1" 2] by (simp add: jsRem_def)


section \<open>Where the drag is computed exactly\<close>

lemma binary53I: "y * 2 ^ k = of_int n \<Longrightarrow> \<bar>n\<bar> < 2 ^ 53 \<Longrightarrow> binary53 k y"
proof -
  assume y: "y * 2 ^ k = of_int n" and n: "\<bar>n\<bar> < 2 ^ 53"
  have "\<bar>(of_int n :: real)\<bar> < 2 ^ 53"
    using n by (metis of_int_abs of_int_less_numeral_power_cancel_iff)
  then show ?thesis by (simp add: binary53_def y)
qed

lemma binary53_small:
  assumes y: "y * 2 ^ k = of_int n" and small: "\<bar>y\<bar> < 4" and k: "k \<le> 20"
  shows "binary53 k y"
proof -
  have p: "(2::real) ^ k \<le> 2 ^ 20" using k by (intro power_increasing) simp_all
  have "\<bar>y * 2 ^ k\<bar> = \<bar>y\<bar> * 2 ^ k" by (simp add: abs_mult)
  also have "\<dots> \<le> \<bar>y\<bar> * 2 ^ 20" using p by (intro mult_left_mono) simp_all
  also have "\<dots> < 4 * 2 ^ 20" using small by simp
  finally have "\<bar>y * 2 ^ k\<bar> < 2 ^ 53" by simp
  then show ?thesis by (simp add: binary53_def y)
qed

lemma pow_bound: "k \<le> 20 \<Longrightarrow> (2::int) ^ k \<le> 2 ^ 20 \<and> 1 \<le> (2::int) ^ k"
  using power_increasing [of k 20 "2::int"] by simp

text \<open>
  On a canvas whose width is a power of two, with whole pixel coordinates and a start
  rotation of -1, 0 or 1, every value that the listener computes on the way to
  \<^verbatim>\<open>v\<close> and to \<^verbatim>\<open>v - lo\<close> is a multiple of \<open>2\<^sup>-\<^sup>k\<close> of fewer than 53 bits.
\<close>

lemma drag_exact:
  assumes width: "canvasWidth = 2 ^ k" and k: "k \<le> 20"
    and mx: "mx = of_int i" and i: "\<bar>i\<bar> \<le> 2 ^ 21"
    and sp: "fst sp = of_int j" and j: "\<bar>j\<bar> \<le> 2 ^ 20"
    and sr: "sr = of_int q" and q: "\<bar>q\<bar> \<le> 1"
  shows "binary53 k (2 / canvasWidth)"
    and "binary53 k (mx - fst sp)"
    and "binary53 k ((mx - fst sp) * (2 / canvasWidth))"
    and "binary53 k (dragValue canvasWidth (Moving sr sp ls c mx))"
    and "binary53 k (dragValue canvasWidth (Moving sr sp ls c mx) - (-1))"
proof -
  define P :: int where "P = 2 ^ k"
  have P: "0 \<le> P" "P \<le> 1048576" using pow_bound [OF k] by (simp_all add: P_def)
  have d: "\<bar>i - j\<bar> \<le> 3145728" using i j by simp
  have dp: "\<bar>(i - j) * P\<bar> \<le> 3145728 * 1048576"
    unfolding abs_mult using d P by (intro mult_mono) simp_all
  have qp: "\<bar>q * P\<bar> \<le> 1048576"
    unfolding abs_mult using q P mult_mono [of "\<bar>q\<bar>" 1 "\<bar>P\<bar>" 1048576] by simp
  have b1: "\<bar>2 * (i - j) - q * P\<bar> < 2 ^ 53" using d qp by simp
  have b2: "\<bar>2 * (i - j) - q * P + P\<bar> < 2 ^ 53" using d qp P by simp
  show "binary53 k (2 / canvasWidth)"
    by (rule binary53I [of _ _ 2]) (simp_all add: width)
  show "binary53 k (mx - fst sp)"
    using dp by (intro binary53I [of _ _ "(i - j) * P"]) (simp_all add: mx sp P_def)
  show "binary53 k ((mx - fst sp) * (2 / canvasWidth))"
    using d by (intro binary53I [of _ _ "2 * (i - j)"]) (simp_all add: mx sp width)
  have v: "dragValue canvasWidth (Moving sr sp ls c mx) * 2 ^ k = of_int (2 * (i - j) - q * P)"
    by (simp add: dragValue_def mx sp sr width field_simps P_def)
  show "binary53 k (dragValue canvasWidth (Moving sr sp ls c mx))"
    by (rule binary53I [OF v b1])
  have "(dragValue canvasWidth (Moving sr sp ls c mx) - (-1)) * 2 ^ k
      = of_int (2 * (i - j) - q * P + P)"
    using v by (simp add: algebra_simps P_def)
  then show "binary53 k (dragValue canvasWidth (Moving sr sp ls c mx) - (-1))"
    by (rule binary53I [OF _ b2])
qed

text \<open>
  From such a value, the remainder by 2 and the sum with \<^verbatim>\<open>lo\<close> that \<^verbatim>\<open>bound\<close>
  computes are again such values.
\<close>

lemma rem_exact:
  assumes a: "a * 2 ^ k = of_int n" and k: "k \<le> 20"
  shows "\<exists>m. jsRem a 2 = Some m \<and> binary53 k m \<and> binary53 k (m + (-1))"
proof -
  define m where "m = a - 2 * of_int (trunc (a / 2))"
  have range: "-2 < m \<and> m < 2"
  proof (cases "0 \<le> a")
    case True
    from trunc_frac [OF True, of 2] show ?thesis by (simp add: m_def)
  next
    case False
    then have "a \<le> 0" by simp
    from trunc_frac_neg [OF this, of 2] show ?thesis by (simp add: m_def)
  qed
  have m: "m * 2 ^ k = of_int (n - 2 * 2 ^ k * trunc (a / 2))"
    using a by (simp add: m_def algebra_simps)
  then have m1: "(m + (-1)) * 2 ^ k = of_int (n - 2 * 2 ^ k * trunc (a / 2) - 2 ^ k)"
    by (simp add: algebra_simps)
  have "binary53 k m"
    using range by (intro binary53_small [OF m _ k]) linarith
  moreover have "binary53 k (m + (-1))"
    using range by (intro binary53_small [OF m1 _ k]) linarith
  moreover have "jsRem a 2 = Some m" by (simp add: jsRem_def m_def)
  ultimately show ?thesis by blast
qed

section \<open>The steps of the scheduler, field by field\<close>

lemma loop_unresolved:
  "unresolved (loop inp s) =
     (if startsReload inp s then unresolved s @ [reloadArguments inp] else unresolved s)"
  by (simp add: loop_def Let_def reloadModelNow_def startsReload_def
      split: option.splits prod.splits)

lemma loop_kernelCalls:
  "kernelCalls (loop inp s) =
     (if startsReload inp s then kernelCalls s @ [reloadArguments inp] else kernelCalls s)"
  by (simp add: loop_def Let_def reloadModelNow_def startsReload_def
      split: option.splits prod.splits)

lemma loop_modelLoadStarted:
  "modelLoadStarted (loop inp s) =
     (if startsReload inp s then Some (nowMillis inp) else modelLoadStarted s)"
  by (simp add: loop_def Let_def reloadModelNow_def startsReload_def
      split: option.splits prod.splits)

lemma loop_reloadModelNeeded:
  "reloadModelNeeded (loop inp s) =
     (\<not> startsReload inp s \<and> (reloadModelNeeded s \<or> dimensionsUpdated inp))"
  by (auto simp add: loop_def Let_def reloadModelNow_def startsReload_def
      split: option.splits prod.splits)

lemma loop_loopRequested: "loopRequested (loop inp s)"
  by (simp add: loop_def Let_def split: option.splits prod.splits)

lemma without_last: "k < length xs \<Longrightarrow> length xs \<le> 1 \<Longrightarrow> without k xs = []"
  by (cases xs) (simp_all add: without_def)

lemma resolve_fields:
  "k < length (unresolved s) \<Longrightarrow> unresolved (resolve k s) = without k (unresolved s)"
  "k < length (unresolved s) \<Longrightarrow> modelLoadStarted (resolve k s) = None"
  "k < length (unresolved s) \<Longrightarrow> centerCameraNeeded (resolve k s)"
  "k < length (unresolved s) \<Longrightarrow> meshGeometry (resolve k s) = reloadModel (unresolved s ! k)"
  "kernelCalls (resolve k s) = kernelCalls s"
  "reloadModelNeeded (resolve k s) = reloadModelNeeded s"
  "loopRequested (resolve k s) = loopRequested s"
  by (simp_all add: resolve_def)

lemma reject_fields:
  "k < length (unresolved s) \<Longrightarrow> unresolved (reject k s) = without k (unresolved s)"
  "modelLoadStarted (reject k s) = modelLoadStarted s"
  "centerCameraNeeded (reject k s) = centerCameraNeeded s"
  "meshGeometry (reject k s) = meshGeometry s"
  "kernelCalls (reject k s) = kernelCalls s"
  "reloadModelNeeded (reject k s) = reloadModelNeeded s"
  "loopRequested (reject k s) = loopRequested s"
  by (simp_all add: reject_def)

lemma frames_Cons: "frames (inp # inps) s = frames inps (loop inp s)"
  by (simp add: frames_def)

text \<open>
  While \<^verbatim>\<open>modelLoadStarted\<close> is set and no frame comes more than 100 ms after it,
  the frames start nothing and remember that a reload is needed.
\<close>

lemma frames_waiting:
  assumes "modelLoadStarted s = Some t0" and "\<forall>inp\<in>set fs. nowMillis inp - t0 \<le> 100"
  shows "modelLoadStarted (frames fs s) = Some t0 \<and>
         unresolved (frames fs s) = unresolved s \<and>
         kernelCalls (frames fs s) = kernelCalls s \<and>
         reloadModelNeeded (frames fs s) =
           (reloadModelNeeded s \<or> filter dimensionsUpdated fs \<noteq> [])"
  using assms
proof (induction fs arbitrary: s)
  case Nil
  then show ?case by (simp add: frames_def)
next
  case (Cons inp fs)
  have waits: "\<not> startsReload inp s"
    using Cons.prems by (simp add: startsReload_def)
  have "modelLoadStarted (loop inp s) = Some t0"
    using Cons.prems(1) waits by (simp add: loop_modelLoadStarted)
  from Cons.IH [OF this] Cons.prems(2) waits show ?case
    by (auto simp: frames_Cons loop_unresolved loop_kernelCalls loop_reloadModelNeeded)
qed

lemma frames_idle:
  assumes "\<not> reloadModelNeeded s" and "\<forall>g\<in>set gs. \<not> dimensionsUpdated g"
  shows "kernelCalls (frames gs s) = kernelCalls s"
  using assms
proof (induction gs arbitrary: s)
  case Nil
  then show ?case by (simp add: frames_def)
next
  case (Cons g gs)
  have idle: "\<not> startsReload g s"
    using Cons.prems by (simp add: startsReload_def)
  have "\<not> reloadModelNeeded (loop g s)"
    using Cons.prems by (simp add: loop_reloadModelNeeded)
  from Cons.IH [OF this] Cons.prems(2) idle show ?case
    by (simp add: frames_Cons loop_kernelCalls)
qed

text \<open>In every reachable state the next call of \<^verbatim>\<open>loop\<close> is due.\<close>

lemma reachable_loopRequested: "reachable s \<Longrightarrow> loopRequested s"
proof (induction rule: reachable.induct)
  case initial
  show ?case by (simp add: initialScheduler_def)
next
  case (after s s')
  from after.hyps(2) after.IH show ?case
    by (induction rule: step.induct)
       (simp_all add: loop_loopRequested resolve_fields reject_fields)
qed

text \<open>The invariant of the prompt runs.\<close>

lemma promptStep_invariant:
  assumes "promptStep s s'"
    and "length (unresolved s) \<le> 1 \<and> (unresolved s \<noteq> [] \<longrightarrow> modelLoadStarted s \<noteq> None)"
  shows "length (unresolved s') \<le> 1 \<and> (unresolved s' \<noteq> [] \<longrightarrow> modelLoadStarted s' \<noteq> None)"
  using assms
proof (induction rule: promptStep.induct)
  case (promptFrame s inp)
  then show ?case
    by (cases "unresolved s")
       (auto simp: loop_unresolved loop_modelLoadStarted overdue_def startsReload_def
             split: option.splits)
next
  case (promptResolved k s)
  then show ?case by (simp add: resolve_fields without_last)
next
  case (promptRejected k s)
  then show ?case by (simp add: reject_fields without_last)
qed

lemma promptlyReachable_invariant:
  "promptlyReachable s \<Longrightarrow>
     length (unresolved s) \<le> 1 \<and> (unresolved s \<noteq> [] \<longrightarrow> modelLoadStarted s \<noteq> None)"
proof (induction rule: promptlyReachable.induct)
  case promptInitial
  show ?case by (simp add: initialScheduler_def)
next
  case (promptNext s s')
  from promptStep_invariant [OF promptNext.hyps(2) promptNext.IH] show ?case .
qed

section \<open>The gesture, step by step\<close>

lemma toggle_wellTyped: "p = -1 \<or> p = 0 \<or> p = 1 \<Longrightarrow> \<exists>q. toggle p = Some q \<and> (q = 0 \<or> q = 1)"
  by (auto simp: toggle_def)

lemma forgetUpdate_static:
  assumes "wellTyped was"
  shows "\<exists>p. forgetUpdate rc now was = Some (Static p) \<and> (p = -1 \<or> p = 0 \<or> p = 1)"
proof (cases was)
  case (Static p)
  with assms toggle_wellTyped [of p] show ?thesis
    by (auto simp: forgetUpdate_def wellTyped_def)
next
  case (WillMove sr sp c ls)
  with assms toggle_wellTyped [of ls] show ?thesis
    by (auto simp: forgetUpdate_def wellTyped_def)
next
  case (Moving sr sp ls c mx)
  with assms toggle_wellTyped [of ls] show ?thesis
    by (auto simp: forgetUpdate_def wellTyped_def Let_def split: option.splits)
qed

text \<open>
  After a pointer-down, any run of moves keeps what the down recorded, and only the last
  move counts.
\<close>

lemma trackMoves_ready:
  assumes "partPositioning s = WillMove sr sp c ls"
  shows "partPositioning (trackMoves xs s) =
           (if xs = [] then WillMove sr sp c ls else Moving sr sp ls c (last xs))"
proof -
  have moving: "partPositioning s' = Moving sr sp ls c mx \<Longrightarrow>
      partPositioning (trackMoves ys s') = Moving sr sp ls c (last (mx # ys))" for s' mx ys
    by (induction ys arbitrary: s' mx) (simp_all add: trackMoves_def trackMouse_def)
  show ?thesis
  proof (cases xs)
    case Nil
    with assms show ?thesis by (simp add: trackMoves_def)
  next
    case (Cons y ys)
    have "partPositioning (trackMouse y s) = Moving sr sp ls c y"
      using assms by (simp add: trackMouse_def)
    from moving [OF this, of ys] Cons show ?thesis by (simp add: trackMoves_def)
  qed
qed

section \<open>The circle\<close>

lemma circle_vertices:
  "v \<in> set (vertices (circle radius)) \<Longrightarrow> (fst v)\<^sup>2 + (snd v)\<^sup>2 = radius\<^sup>2"
proof -
  assume "v \<in> set (vertices (circle radius))"
  then obtain a where "v = (radius * cos a, radius * sin a)"
    by (auto simp: circle_def Let_def)
  then have "(fst v)\<^sup>2 + (snd v)\<^sup>2 = radius\<^sup>2 * (cos a)\<^sup>2 + radius\<^sup>2 * (sin a)\<^sup>2"
    by (simp add: power_mult_distrib)
  also have "\<dots> = radius\<^sup>2"
    by (simp add: distrib_left [symmetric])
  finally show ?thesis .
qed

lemma circle_zero: "circle 0 = CrossSection (replicate N_SEGMENTS (0, 0))"
  by (simp add: circle_def map_replicate_const)

section \<open>The digits of a rounded number\<close>

lemma toFixed0_round:
  assumes "0 \<le> v" and "v < 10 ^ 21"
  shows "toFixed0 toString v = decimal (nat (round v))"
  using assms by (simp add: toFixed0_def Let_def round_def)

section \<open>The claims\<close>

subsection \<open>C1: one kernel call at a time\<close>

text \<open>
  C1, as stated: in every reachable state at most one call of \<^verbatim>\<open>reloadModel\<close> started
  by the loop is unresolved. This fails. The first frame, at 0 ms, starts a call; when
  that call is still unresolved at 200 ms and the height has changed, the frame at 200 ms
  starts a second one, because more than 100 ms have passed since \<^verbatim>\<open>modelLoadStarted\<close>.
  The state reached has two unresolved calls.
\<close>

theorem single_flight_counterexample:
  "reachable (loop (frameAt 200 True 80) (loop (frameAt 0 False 50) initialScheduler)) \<and>
   length (unresolved (loop (frameAt 200 True 80) (loop (frameAt 0 False 50) initialScheduler))) = 2"
proof
  show "reachable (loop (frameAt 200 True 80) (loop (frameAt 0 False 50) initialScheduler))"
    by (intro reachable.after [OF _ step.frame] reachable.initial loop_loopRequested)
       (simp add: initialScheduler_def)
  show "length (unresolved (loop (frameAt 200 True 80) (loop (frameAt 0 False 50) initialScheduler))) = 2"
    by (simp add: loop_unresolved loop_modelLoadStarted loop_reloadModelNeeded startsReload_def
        initialScheduler_def frameAt_def dimensionsUpdated_def)
qed

text \<open>
  C1, amended: in every state reached by a run in which no frame comes more than 100 ms
  after \<^verbatim>\<open>modelLoadStarted\<close> while a call is unresolved, at most one call is
  unresolved; and in any state, a frame starts a call only if a reload is needed and
  \<^verbatim>\<open>modelLoadStarted\<close> is undefined or more than 100 ms before the frame.
\<close>

theorem single_flight:
  "(promptlyReachable s \<longrightarrow> length (unresolved s) \<le> 1) \<and>
   (unresolved (loop inp s) \<noteq> unresolved s \<longrightarrow>
      (reloadModelNeeded s \<or> dimensionsUpdated inp) \<and>
      (modelLoadStarted s = None \<or> (\<exists>t. modelLoadStarted s = Some t \<and> nowMillis inp - t > 100)))"
  using promptlyReachable_invariant [of s]
  by (auto simp: loop_unresolved startsReload_def split: option.splits if_splits)

text \<open>
  A run of C1 as amended: a call starts at 0 ms, the height changes at 50 ms, and the
  only unresolved call is still the first.
\<close>

theorem single_flight_witness:
  "promptlyReachable (loop (frameAt 50 True 80) (loop (frameAt 0 False 50) initialScheduler)) \<and>
   length (unresolved (loop (frameAt 50 True 80) (loop (frameAt 0 False 50) initialScheduler))) = 1"
proof -
  let ?s1 = "loop (frameAt 0 False 50) initialScheduler"
  let ?s2 = "loop (frameAt 50 True 80) ?s1"
  have o1: "\<not> overdue (frameAt 0 False 50) initialScheduler"
    by (simp add: overdue_def initialScheduler_def)
  have o2: "\<not> overdue (frameAt 50 True 80) ?s1"
    by (simp add: overdue_def loop_modelLoadStarted startsReload_def initialScheduler_def
        frameAt_def)
  have l1: "loopRequested initialScheduler"
    by (simp add: initialScheduler_def)
  have r: "promptlyReachable ?s2"
    by (intro promptNext [OF _ promptFrame] promptInitial o1 o2 l1 loop_loopRequested)
  have one: "unresolved ?s2 \<noteq> []"
    by (simp add: loop_unresolved startsReload_def initialScheduler_def frameAt_def)
  from single_flight [of ?s2] r have "length (unresolved ?s2) \<le> 1" by blast
  with one have "length (unresolved ?s2) = 1" by (cases "unresolved ?s2") simp_all
  with r show ?thesis by simp
qed

subsection \<open>C2: changes while a call is outstanding\<close>

text \<open>
  C2, as stated: N changes that arrive while a call is outstanding lead to exactly one
  more call, started after the outstanding one completes. This fails when the call is
  outstanding for more than 100 ms. Here a call starts at 0 ms and two changes arrive at
  150 ms and 300 ms: each of the two frames starts a call at once, while the first call
  is unresolved, and the frame after its completion starts none.
\<close>

theorem one_more_call_counterexample:
  "unresolved (loop (frameAt 0 False 50) initialScheduler) = [(50, 25, 3, True)] \<and>
   kernelCalls (frames [frameAt 150 True 60, frameAt 300 True 80]
      (loop (frameAt 0 False 50) initialScheduler))
     = [(50, 25, 3, True), (60, 25, 3, True), (80, 25, 3, True)] \<and>
   kernelCalls (loop (frameAt 310 False 80) (resolve 0
      (frames [frameAt 150 True 60, frameAt 300 True 80]
         (loop (frameAt 0 False 50) initialScheduler))))
     = [(50, 25, 3, True), (60, 25, 3, True), (80, 25, 3, True)]"
  by (simp add: frames_def loop_unresolved loop_modelLoadStarted loop_kernelCalls
      loop_reloadModelNeeded resolve_fields startsReload_def
      initialScheduler_def frameAt_def dimensionsUpdated_def reloadArguments_def
      START_OUTER_RADIUS_def START_WALL_THICKNESS_def START_CLOSED_BOTTOM_def)

text \<open>
  C2, amended: let exactly one call be unresolved and \<^verbatim>\<open>modelLoadStarted\<close> be \<open>t0\<close>,
  and let \<open>fs\<close> be all the frames that come before the call resolves: every one of
  them at most 100 ms after \<open>t0\<close>, and \<open>N \<ge> 1\<close> of them with a changed dimension.
  Then these frames start no call; once the call has resolved, the next frame starts
  exactly one call, with the dimensions current in that frame; and the frames after it,
  as long as no dimension changes, start none.
\<close>

theorem one_more_call:
  assumes one: "unresolved s = [c]" and started: "modelLoadStarted s = Some t0"
    and prompt: "\<forall>f\<in>set fs. nowMillis f - t0 \<le> 100"
    and changes: "length (filter dimensionsUpdated fs) = N" and some: "1 \<le> N"
    and idle: "\<forall>g\<in>set gs. \<not> dimensionsUpdated g"
  shows "kernelCalls (frames fs s) = kernelCalls s \<and>
         unresolved (frames fs s) = [c] \<and>
         kernelCalls (loop inp (resolve 0 (frames fs s))) = kernelCalls s @ [reloadArguments inp] \<and>
         kernelCalls (frames gs (loop inp (resolve 0 (frames fs s)))) =
           kernelCalls s @ [reloadArguments inp]"
proof -
  let ?w = "frames fs s"
  let ?r = "resolve 0 ?w"
  have changed: "filter dimensionsUpdated fs \<noteq> []" using changes some by auto
  from frames_waiting [OF started prompt] one changed
  have w: "unresolved ?w = [c]" "kernelCalls ?w = kernelCalls s" "reloadModelNeeded ?w"
    by simp_all
  have r: "modelLoadStarted ?r = None" "reloadModelNeeded ?r" "kernelCalls ?r = kernelCalls s"
    using w by (simp_all add: resolve_fields)
  have starts: "startsReload inp ?r" using r by (simp add: startsReload_def)
  then have l: "kernelCalls (loop inp ?r) = kernelCalls s @ [reloadArguments inp]"
    and "\<not> reloadModelNeeded (loop inp ?r)"
    using r by (simp_all add: loop_kernelCalls loop_reloadModelNeeded)
  from frames_idle [OF this(2) idle] l w show ?thesis by simp
qed

text \<open>
  A run of C2 as amended: a call starts at 0 ms; three changes arrive at 20, 40 and 60 ms;
  the call resolves; the frame at 80 ms starts the one further call, for the height 80.
\<close>

theorem one_more_call_witness:
  "kernelCalls (frames [frameAt 20 True 60, frameAt 40 True 70, frameAt 60 True 80]
      (loop (frameAt 0 False 50) initialScheduler)) = [(50, 25, 3, True)] \<and>
   kernelCalls
     (frames [frameAt 100 False 80, frameAt 120 False 80]
        (loop (frameAt 80 False 80)
           (resolve 0
              (frames [frameAt 20 True 60, frameAt 40 True 70, frameAt 60 True 80]
                 (loop (frameAt 0 False 50) initialScheduler)))))
   = [(50, 25, 3, True), (80, 25, 3, True)]"
  using one_more_call [where s = "loop (frameAt 0 False 50) initialScheduler"
      and c = "(50, 25, 3, True)" and ?t0.0 = 0
      and fs = "[frameAt 20 True 60, frameAt 40 True 70, frameAt 60 True 80]" and N = 3
      and gs = "[frameAt 100 False 80, frameAt 120 False 80]" and inp = "frameAt 80 False 80"]
  by (simp add: loop_unresolved loop_modelLoadStarted loop_kernelCalls startsReload_def
      initialScheduler_def frameAt_def dimensionsUpdated_def reloadArguments_def
      START_OUTER_RADIUS_def START_WALL_THICKNESS_def START_CLOSED_BOTTOM_def)

subsection \<open>C3: a tap toggles the orientation\<close>

text \<open>
  C3: a pointer-down that is not a miss, from the static orientation \<open>p\<close>, then any
  moves \<open>xs\<close>, then a pointer-up less than 0.3 s after the down and, when the pointer
  moved, less than 15 pixels away from it horizontally, end in the static state with
  the orientation \<^verbatim>\<open>toggle\<close> of \<open>p\<close>. \<^verbatim>\<open>toggle\<close> takes -1 to 0, 0 to 1 and 1 to 0.
  Two taps, from the initial orientation 0, give the orientations 1 and then 0.
\<close>

theorem tap_toggles:
  assumes static: "partPositioning s = Static p"
    and typed: "p = -1 \<or> p = 0 \<or> p = 1"
    and hit: "\<not> (r = 0 \<and> g = 0 \<and> b = 0 \<and> a = 0)"
    and quick: "getElapsedTime down up < 0.3"
    and near: "xs \<noteq> [] \<Longrightarrow> \<bar>last xs - fst xy\<bar> < 15"
  shows "(\<exists>q. toggle p = Some q \<and>
            map_option partPositioning
              (forgetMouse rc' up (trackMoves xs (readyMouse xy (r, g, b, a) rc down s)))
            = Some (Static q)) \<and>
         (toggle (-1) = Some 0 \<and> toggle 0 = Some 1 \<and> toggle 1 = Some 0) \<and>
         (\<exists>s1 s2.
            forgetMouse rc' up (readyMouse xy (r, g, b, a) rc down initialGesture) = Some s1 \<and>
            partPositioning s1 = Static 1 \<and>
            forgetMouse rc' up (readyMouse xy (r, g, b, a) rc down s1) = Some s2 \<and>
            partPositioning s2 = Static 0)"
proof (intro conjI)
  obtain q where q: "toggle p = Some q" using toggle_wellTyped [OF typed] by blast
  have ready: "partPositioning (readyMouse xy (r, g, b, a) rc down s) = WillMove rc xy down p"
    using static hit by (auto simp: readyMouse_def)
  have "forgetUpdate rc' up (partPositioning (trackMoves xs (readyMouse xy (r, g, b, a) rc down s)))
          = Some (Static q)"
    using q quick near by (simp add: trackMoves_ready [OF ready] forgetUpdate_def Let_def)
  then show "\<exists>q. toggle p = Some q \<and>
           map_option partPositioning
             (forgetMouse rc' up (trackMoves xs (readyMouse xy (r, g, b, a) rc down s)))
           = Some (Static q)"
    using q by (simp add: forgetMouse_def)
  show "toggle (-1) = Some 0" and "toggle 0 = Some 1" and "toggle 1 = Some 0"
    by (simp_all add: toggle_def)
  show "\<exists>s1 s2.
           forgetMouse rc' up (readyMouse xy (r, g, b, a) rc down initialGesture) = Some s1 \<and>
           partPositioning s1 = Static 1 \<and>
           forgetMouse rc' up (readyMouse xy (r, g, b, a) rc down s1) = Some s2 \<and>
           partPositioning s2 = Static 0"
    using hit
    by (auto simp: forgetMouse_def readyMouse_def forgetUpdate_def toggle_def initialGesture_def)
qed

text \<open>
  A tap of C3: down at (10, 10) on an opaque pixel, moves to 13 and to 20, up after
  100 ms; the orientation goes from 0 to 1.
\<close>

theorem tap_toggles_witness:
  "map_option partPositioning
     (forgetMouse 0 100 (trackMoves [13, 20] (readyMouse (10, 10) (1, 1, 1, 1) 0 0 initialGesture)))
   = Some (Static 1)"
  using tap_toggles [where s = initialGesture and p = 0 and r = 1 and g = 1 and b = 1 and a = 1
      and down = 0 and up = 100 and xs = "[13, 20]" and xy = "(10, 10)" and rc = 0 and rc' = 0]
  by (simp add: initialGesture_def getElapsedTime_def toggle_def)

subsection \<open>C4: a drag across the whole canvas\<close>




subsection \<open>C5: the range of the live rotation target\<close>

text \<open>
  C5 says that the target passed on during a drag lies between -1 and 1 for every
  \<^verbatim>\<open>v\<close>, also below -1. The source does not do that: with the part turned to the
  orientation 1 (start rotation 1), the pointer down at 384 on a canvas of 512 pixels
  and dragged left to 256, \<^verbatim>\<open>v\<close> is -3/2 and the target passed on is -3/2.
\<close>

theorem drag_left_from_back:
  "positioningListener 512 (Moving 1 (384, 100) 1 0 256) =
     Some (StartAnimationTo (Some (-3/2)) True)"
  by (simp add: positioningListener_def dragValue_def jsRem_def trunc_def)

subsection \<open>C6: the name of the download\<close>

text \<open>
  C6: for target dimensions \<open>h\<close>, \<open>r\<close>, \<open>w\<close> (which the input handlers keep between
  the minima and maxima of the source, so that they are not negative and far below
  \<open>10\<^sup>2\<^sup>1\<close>) the file name is the pattern of the specification, filled with the
  diameter \<open>2r\<close>, the height and the wall thickness, each rounded to an integer, and
  with the kind of bottom. For the height 80, the radius 25, the thickness 3 and a closed
  bottom it is \<^verbatim>\<open>cylinder-50x80-wall3-closed.3mf\<close>.
\<close>

theorem filename_pattern:
  assumes "0 \<le> h" and "h < 10 ^ 21" and "0 \<le> r" and "r * 2 < 10 ^ 21"
    and "0 \<le> w" and "w < 10 ^ 21"
  shows "filename toString h r w cb = filenamePattern (round (r * 2)) (round h) (round w) cb \<and>
         filename toString 80 25 3 True = ''cylinder-50x80-wall3-closed.3mf''"
proof
  have "0 \<le> r * 2" using assms(3) by simp
  then show "filename toString h r w cb = filenamePattern (round (r * 2)) (round h) (round w) cb"
    using assms by (simp add: filename_def filenamePattern_def toFixed0_round)
  show "filename toString 80 25 3 True = ''cylinder-50x80-wall3-closed.3mf''"
    by (simp add: filename_def toFixed0_def decimal.simps digit_def)
qed

text \<open>
  A name of C6: the height 80.5 is rounded to 81, the bottom is open.
\<close>

theorem filename_pattern_witness:
  "filename (\<lambda>v. []) (161 / 2) 25 3 False = ''cylinder-50x81-wall3-open.3mf''"
  using filename_pattern [where toString = "\<lambda>v. []" and h = "161 / 2" and r = 25 and w = 3
      and cb = False]
  by (simp add: filenamePattern_def round_def decimal.simps digit_def)

subsection \<open>C7: a wall thicker than the outer radius\<close>

text \<open>
  For every input of \<^verbatim>\<open>hollowCylinder\<close> (of either version), the cavity that is
  subtracted extrudes the circle of radius \<open>max 0 (outerRadius - wallThickness)\<close>: all
  its vertices are at that distance from the origin, and when the wall is thicker than
  the outer radius all 64 of them are the origin.
\<close>

lemma cavity_radius:
  "Option.bind (cavity (hollowCylinder rnd h r w cb sp)) section_of = Some (circle (max 0 (r - w))) \<and>
   Option.bind (cavity (hollowCylinder3 h r w)) section_of = Some (circle (max 0 (r - w))) \<and>
   (\<forall>v\<in>set (vertices (circle (max 0 (r - w)))). (fst v)\<^sup>2 + (snd v)\<^sup>2 = (max 0 (r - w))\<^sup>2) \<and>
   (r < w \<longrightarrow> circle (max 0 (r - w)) = CrossSection (replicate 64 (0, 0)))"
  by (auto simp: hollowCylinder_def hollowCylinder3_def Let_def circle_vertices circle_zero
      N_SEGMENTS_def max_def)


subsection \<open>C8: a kernel call that fails\<close>

text \<open>
  C8, as stated, says that after a failed kernel call \<^verbatim>\<open>modelLoadStarted\<close> is cleared,
  so that the next change of a parameter starts a reload. This fails. The call started
  at 0 ms is rejected: \<^verbatim>\<open>modelLoadStarted\<close> is still 0, and the change of height in the
  frame at 50 ms starts no call.
\<close>

theorem kernel_failure_counterexample:
  "modelLoadStarted (reject 0 (loop (frameAt 0 False 50) initialScheduler)) = Some 0 \<and>
   kernelCalls (loop (frameAt 50 True 80) (reject 0 (loop (frameAt 0 False 50) initialScheduler)))
     = [(50, 25, 3, True)]"
  by (simp add: loop_unresolved loop_modelLoadStarted loop_kernelCalls
      loop_reloadModelNeeded reject_fields startsReload_def
      initialScheduler_def frameAt_def dimensionsUpdated_def reloadArguments_def
      START_OUTER_RADIUS_def START_WALL_THICKNESS_def START_CLOSED_BOTTOM_def)

text \<open>
  C8, amended: when a kernel call fails, the geometry of the mesh, \<^verbatim>\<open>modelLoadStarted\<close>
  and \<^verbatim>\<open>reloadModelNeeded\<close> are left as they are. The frame loop keeps running: from a
  reachable state the failure leads to a reachable state in which the next call of
  \<^verbatim>\<open>loop\<close> is still due, and that call is a step of the system. \<^verbatim>\<open>modelLoadStarted\<close>
  keeps the time of the start, and a frame with a changed dimension starts a new call
  exactly when it comes more than 100 ms after that time. When a call succeeds,
  \<^verbatim>\<open>modelLoadStarted\<close> is cleared, \<^verbatim>\<open>centerCameraNeeded\<close> is set and the mesh has the
  geometry of the model computed for the arguments of the call.
\<close>

theorem kernel_failure:
  assumes "k < length (unresolved s)"
  shows "meshGeometry (reject k s) = meshGeometry s \<and>
         modelLoadStarted (reject k s) = modelLoadStarted s \<and>
         reloadModelNeeded (reject k s) = reloadModelNeeded s \<and>
         (reachable s \<longrightarrow>
            reachable (reject k s) \<and> loopRequested (reject k s) \<and>
            step (reject k s) (loop inp (reject k s))) \<and>
         (\<forall>t. modelLoadStarted s = Some t \<longrightarrow> dimensionsUpdated inp \<longrightarrow>
            kernelCalls (loop inp (reject k s)) =
              (if nowMillis inp - t > 100 then kernelCalls s @ [reloadArguments inp]
               else kernelCalls s)) \<and>
         modelLoadStarted (resolve k s) = None \<and>
         centerCameraNeeded (resolve k s) \<and>
         meshGeometry (resolve k s) = reloadModel (unresolved s ! k)"
proof -
  have running: "reachable (reject k s) \<and> loopRequested (reject k s) \<and>
      step (reject k s) (loop inp (reject k s))" if r: "reachable s"
  proof -
    have r': "reachable (reject k s)"
      using r assms by (intro reachable.after [OF _ step.rejected])
    then have "loopRequested (reject k s)" by (rule reachable_loopRequested)
    with r' show ?thesis by (simp add: step.frame)
  qed
  from assms running show ?thesis
    by (simp add: reject_fields resolve_fields loop_kernelCalls startsReload_def)
qed

text \<open>
  A failure of C8 as amended: the call started at 0 ms is rejected, the loop goes on,
  and the change of height in the frame at 150 ms starts the next call.
\<close>

theorem kernel_failure_witness:
  "step (reject 0 (loop (frameAt 0 False 50) initialScheduler))
     (loop (frameAt 150 True 80) (reject 0 (loop (frameAt 0 False 50) initialScheduler))) \<and>
   kernelCalls (loop (frameAt 150 True 80) (reject 0 (loop (frameAt 0 False 50) initialScheduler)))
     = [(50, 25, 3, True), (80, 25, 3, True)] \<and>
   modelLoadStarted (resolve 0 (loop (frameAt 0 False 50) initialScheduler)) = None"
proof -
  let ?s = "loop (frameAt 0 False 50) initialScheduler"
  let ?inp = "frameAt 150 True 80"
  have k: "0 < length (unresolved ?s)"
    by (simp add: loop_unresolved startsReload_def initialScheduler_def)
  have m: "modelLoadStarted ?s = Some 0"
    by (simp add: loop_modelLoadStarted startsReload_def initialScheduler_def frameAt_def)
  have d: "dimensionsUpdated ?inp"
    by (simp add: dimensionsUpdated_def frameAt_def)
  have c: "kernelCalls ?s = [(50, 25, 3, True)]"
    by (simp add: loop_kernelCalls startsReload_def initialScheduler_def frameAt_def
        reloadArguments_def START_OUTER_RADIUS_def START_WALL_THICKNESS_def
        START_CLOSED_BOTTOM_def)
  have r: "reachable ?s"
    by (intro reachable.after [OF _ step.frame] reachable.initial)
       (simp add: initialScheduler_def)
  from kernel_failure [OF k, of ?inp] m d r
  have "step (reject 0 ?s) (loop ?inp (reject 0 ?s))"
    and "kernelCalls (loop ?inp (reject 0 ?s)) =
          (if nowMillis ?inp - 0 > 100 then kernelCalls ?s @ [reloadArguments ?inp]
           else kernelCalls ?s)"
    and "modelLoadStarted (resolve 0 ?s) = None"
    by simp_all
  then show ?thesis
    unfolding c
    by (simp add: frameAt_def reloadArguments_def START_OUTER_RADIUS_def
        START_WALL_THICKNESS_def START_CLOSED_BOTTOM_def)
qed

subsection \<open>C9: a pointer-down beside the part\<close>

text \<open>
  C9, as stated: a pointer-down on a pixel whose alpha component is 0 is a miss and
  changes nothing. This fails for a pixel with alpha 0 and another component that is not
  0: with the colour (0, 0, 1, 0) the gesture leaves the static state.
\<close>

theorem readyMouse_miss_counterexample:
  "partPositioning (readyMouse (10, 10) (0, 0, 1, 0) 0 0 initialGesture) = WillMove 0 (10, 10) 0 0"
  by (simp add: readyMouse_def initialGesture_def)

text \<open>
  C9, amended: a pointer-down on a pixel whose four components are all 0 is a miss: the
  gesture, with its state and its listeners, is left as it is. On any other pixel a
  pointer-down in a static state starts a gesture.
\<close>

theorem readyMouse_miss:
  "readyMouse xy (0, 0, 0, 0) rc now s = s \<and>
   (\<forall>r g b a p. \<not> (r = 0 \<and> g = 0 \<and> b = 0 \<and> a = 0) \<longrightarrow> partPositioning s = Static p \<longrightarrow>
      partPositioning (readyMouse xy (r, g, b, a) rc now s) = WillMove rc xy now p)"
  by (auto simp: readyMouse_def)

text \<open>
  Two pointer-downs of C9 as amended, one on a transparent black pixel and one on an
  opaque black pixel.
\<close>

theorem readyMouse_miss_witness:
  "readyMouse (10, 10) (0, 0, 0, 0) 0 0 initialGesture = initialGesture \<and>
   partPositioning (readyMouse (10, 10) (0, 0, 0, 1) 0 0 initialGesture) = WillMove 0 (10, 10) 0 0"
  using readyMouse_miss [where xy = "(10, 10)" and rc = 0 and now = 0 and s = initialGesture]
  by (simp add: initialGesture_def)

subsection \<open>C10: a pointer-up always ends in a static state\<close>

text \<open>
  C10: from every well-typed state, \<^verbatim>\<open>forgetMouse\<close> gives a static state whose
  orientation is -1, 0 or 1. From a static state it toggles the orientation. From a
  moving state that was not a tap, a bounded rotation below -1 gives the orientation -1.
\<close>

theorem forgetMouse_static:
  assumes "wellTyped (partPositioning s)"
  shows "(\<exists>s' p. forgetMouse rc now s = Some s' \<and> partPositioning s' = Static p \<and>
            (p = -1 \<or> p = 0 \<or> p = 1)) \<and>
         (\<forall>p. partPositioning s = Static p \<longrightarrow>
            map_option partPositioning (forgetMouse rc now s) = map_option Static (toggle p)) \<and>
         (\<forall>sr sp ls c mx b. partPositioning s = Moving sr sp ls c mx \<longrightarrow>
            \<not> (getElapsedTime c now < 0.3 \<and> \<bar>mx - fst sp\<bar> < 15) \<longrightarrow>
            bound rc (-1, 1) = Some b \<longrightarrow> b < -1 \<longrightarrow>
            map_option partPositioning (forgetMouse rc now s) = Some (Static (-1)))"
proof (intro conjI allI impI)
  from forgetUpdate_static [OF assms, of rc now]
  show "\<exists>s' p. forgetMouse rc now s = Some s' \<and> partPositioning s' = Static p \<and>
            (p = -1 \<or> p = 0 \<or> p = 1)"
    by (auto simp: forgetMouse_def)
next
  fix p assume "partPositioning s = Static p"
  then show "map_option partPositioning (forgetMouse rc now s) = map_option Static (toggle p)"
    by (simp add: forgetMouse_def forgetUpdate_def option.map_comp comp_def)
next
  fix sr sp ls c mx b
  assume m: "partPositioning s = Moving sr sp ls c mx"
    and slow: "\<not> (getElapsedTime c now < 0.3 \<and> \<bar>mx - fst sp\<bar> < 15)"
    and b: "bound rc (-1, 1) = Some b" and low: "b < -1"
  have "mathRound b \<le> -1" using low unfolding mathRound_def by linarith
  with m slow b show "map_option partPositioning (forgetMouse rc now s) = Some (Static (-1))"
    by (auto simp: forgetMouse_def forgetUpdate_def Let_def)
qed

text \<open>
  A pointer-up of C10: a drag of 200 pixels, released after a second with the rotation
  at -5/2, which \<^verbatim>\<open>bound\<close> leaves at -5/2; the part snaps to -1.
\<close>

theorem forgetMouse_static_witness:
  "forgetMouse (-5/2) 1000
     \<lparr>partPositioning = Moving 0 (100, 100) 0 0 300, trackAttached = True, forgetAttached = True\<rparr>
   = Some \<lparr>partPositioning = Static (-1), trackAttached = False, forgetAttached = False\<rparr>"
  using forgetMouse_static [where rc = "-5/2" and now = 1000 and
      s = "\<lparr>partPositioning = Moving 0 (100, 100) 0 0 300, trackAttached = True, forgetAttached = True\<rparr>"]
  by (simp add: wellTyped_def forgetMouse_def forgetUpdate_def getElapsedTime_def jsRem_def
      trunc_def mathRound_def)

end
